theory Spec2Isabelle
  imports Complex_Main
begin

text \<open>
  The notebook \<open>CLIP_lightning.ipynb\<close> wraps a pretrained CLIP model in a training-framework
  module (\<open>CringeCLIPModel\<close>), runs the framework's runner for zero steps over a synthetic
  dataset, saves a checkpoint, and reloads it into a fresh wrapper. This theory embeds the
  wrapper's \<open>forward\<close> dispatch and step functions, the dataset, and the cells of the
  save and reload cycle, and proves the properties the specification states of them.
\<close>

section \<open>Tensor values and the tensor library\<close>

text \<open>
  A tensor entry is a finite value (the real number it denotes) or one of the three
  special values of floating-point arithmetic.
\<close>

datatype fval = Fin real | PInf | NInf | NaN

type_synonym row = "fval list"
type_synonym matrix = "row list"
type_synonym tokens = "int list list"

fun is_finite :: "fval \<Rightarrow> bool" where
  "is_finite (Fin a) = True"
| "is_finite v = False"

text \<open>
  The arithmetic of the tensor library is floating-point arithmetic and is not in the
  notebook; the two operations the notebook calls are taken from a record of the
  library's operations. \<open>vector_norm\<close> is \<open>x.norm(dim=-1)\<close> on one row as the library
  computes it, with its rounding, overflow and underflow. \<open>round_quotient\<close> gives the
  value a division returns for the exact quotient of two finite values, the divisor not
  zero (an infinity when it overflows, a zero when it underflows).
\<close>

record tensor_lib =
  vector_norm :: "row \<Rightarrow> fval"
  round_quotient :: "real \<Rightarrow> fval"

text \<open>
  Division. The cases other than finite by finite non-zero are fixed by the
  floating-point rules: nothing is raised, a zero divisor yields a NaN or an infinity.
  The divisor \<open>Fin 0\<close> is the positive zero a norm evaluates to.
\<close>

fun fdiv :: "tensor_lib \<Rightarrow> fval \<Rightarrow> fval \<Rightarrow> fval" where
  "fdiv lib NaN w = NaN"
| "fdiv lib v NaN = NaN"
| "fdiv lib (Fin a) (Fin b) =
     (if b = 0 then (if a = 0 then NaN else if 0 < a then PInf else NInf)
      else round_quotient lib (a / b))"
| "fdiv lib (Fin a) PInf = Fin 0"
| "fdiv lib (Fin a) NInf = Fin 0"
| "fdiv lib PInf (Fin b) = (if b < 0 then NInf else PInf)"
| "fdiv lib NInf (Fin b) = (if b < 0 then PInf else NInf)"
| "fdiv lib PInf w = NaN"
| "fdiv lib NInf w = NaN"

text \<open>
  \<open>x /= x.norm(dim=-1, keepdim=True)\<close>: every entry of a row is divided by the norm the
  library returns for that row. The source divides directly: no epsilon is added and no
  zero test is made.
\<close>

definition normalize_row :: "tensor_lib \<Rightarrow> row \<Rightarrow> row" where
  "normalize_row lib r = map (\<lambda>v. fdiv lib v (vector_norm lib r)) r"

definition normalize :: "tensor_lib \<Rightarrow> matrix \<Rightarrow> matrix" where
  "normalize lib x = map (normalize_row lib) x"

section \<open>The embedding wrapper\<close>

datatype error =
    ValueError string
  | TypeError string
  | RuntimeError string
  | FileNotFoundError string
  | KeyError string
  | AttributeError string
  | NameError string

type_synonym state_dict = "(string \<times> fval list) list"

text \<open>
  The pretrained model is an external collaborator: its two encoders are opaque functions
  of the parameter values and the input, and return a raw embedding of shape [batch, D].
\<close>

record 'i CLIP =
  visual :: "state_dict \<Rightarrow> 'i \<Rightarrow> matrix"
  textual :: "state_dict \<Rightarrow> tokens \<Rightarrow> matrix"
  parameters :: state_dict

definition encode_image :: "'i CLIP \<Rightarrow> 'i \<Rightarrow> matrix" where
  "encode_image c img = visual c (parameters c) img"

definition encode_text :: "'i CLIP \<Rightarrow> tokens \<Rightarrow> matrix" where
  "encode_text c text = textual c (parameters c) text"

record 'i CringeCLIPModel =
  clip_module :: "'i CLIP"
  tokenizer :: "string list \<Rightarrow> tokens"

text \<open>What a call returns: a tensor, or Python's \<open>None\<close> when the body ends without a
  \<open>return\<close>.\<close>

datatype ret = Embedding matrix | PyNone

definition forward ::
  "tensor_lib \<Rightarrow> 'i CringeCLIPModel \<Rightarrow> tokens option \<Rightarrow> 'i option \<Rightarrow> error + ret" where
  "forward lib self text img =
     (if text = None \<and> img = None then
        Inl (ValueError ''Must provide either text or image'')
      else if img \<noteq> None then
        (let x = encode_image (clip_module self) (the img);
             x = normalize lib x
         in Inr (Embedding x))
      else if text \<noteq> None then
        (let x = encode_text (clip_module self) (the text);
             x = normalize lib x
         in Inr (Embedding x))
      else Inr PyNone)"

text \<open>
  \<open>F.mse_loss\<close> is the library's; it is a parameter of the two step functions. A value
  that is not a tensor makes it raise.
\<close>

definition training_step ::
  "tensor_lib \<Rightarrow> (matrix \<Rightarrow> 'o \<Rightarrow> error + 'l) \<Rightarrow> 'i CringeCLIPModel \<Rightarrow> tokens option \<times> 'o \<Rightarrow> nat \<Rightarrow> error + 'l" where
  "training_step lib mse_loss self train_batch batch_idx =
     (case train_batch of (text, output) \<Rightarrow>
        (case forward lib self text None of
           Inl e \<Rightarrow> Inl e
         | Inr PyNone \<Rightarrow> Inl (TypeError ''mse_loss'')
         | Inr (Embedding y) \<Rightarrow> mse_loss y output))"

definition validation_step ::
  "tensor_lib \<Rightarrow> (matrix \<Rightarrow> 'o \<Rightarrow> error + 'l) \<Rightarrow> 'i CringeCLIPModel \<Rightarrow> tokens option \<times> 'o \<Rightarrow> nat \<Rightarrow> error + 'l" where
  "validation_step lib mse_loss self train_batch batch_idx =
     (case train_batch of (text, output) \<Rightarrow>
        (case forward lib self text None of
           Inl e \<Rightarrow> Inl e
         | Inr PyNone \<Rightarrow> Inl (TypeError ''mse_loss'')
         | Inr (Embedding y) \<Rightarrow> mse_loss y output))"

section \<open>Checkpoints and the file store\<close>

text \<open>
  Modelled from the spec: the checkpoint file and the functions that write and read it
  (\<open>save_checkpoint\<close>, \<open>torch.load\<close>, \<open>load_state_dict\<close>) belong to the libraries and are
  not in the notebook. A checkpoint is a named, persisted snapshot of the wrapper's
  parameter values plus the runner's bookkeeping, holding a \<open>state_dict\<close>-shaped mapping
  of parameter name to tensor value; the pretrained weight file holds a bare mapping.
  The state dict of the wrapper names the parameters of its one submodule under the
  prefix \<open>clip_module.\<close>; a load is strict: it raises when a name is missing or
  unexpected, or when a tensor has another size.
\<close>

record checkpoint =
  ckpt_global_step :: nat
  ckpt_state_dict :: state_dict

datatype pickled = StateDict state_dict | Ckpt checkpoint

type_synonym fs = "string \<rightharpoonup> pickled"

text \<open>Modelled from the spec: \<open>torch.load\<close> reads a named file and raises when there is
  none.\<close>

definition torch_load :: "fs \<Rightarrow> string \<Rightarrow> error + pickled" where
  "torch_load files name =
     (case files name of None \<Rightarrow> Inl (FileNotFoundError name) | Some obj \<Rightarrow> Inr obj)"

text \<open>Modelled from the spec: the strict load of a module. The parameters keep their
  order and take the values the incoming mapping holds under their names.\<close>

definition load_state_dict_strict :: "state_dict \<Rightarrow> state_dict \<Rightarrow> error + state_dict" where
  "load_state_dict_strict own sd =
     (let missing = [k \<leftarrow> map fst own. k \<notin> set (map fst sd)];
          unexpected = [k \<leftarrow> map fst sd. k \<notin> set (map fst own)];
          mismatch = [kv \<leftarrow> own. case map_of sd (fst kv) of None \<Rightarrow> False
                                  | Some w \<Rightarrow> length w \<noteq> length (snd kv)]
      in if missing \<noteq> [] \<or> unexpected \<noteq> [] \<or> mismatch \<noteq> [] then
           Inl (RuntimeError ''Error(s) in loading state_dict'')
         else
           Inr (map (\<lambda>kv. case map_of sd (fst kv) of None \<Rightarrow> kv | Some w \<Rightarrow> (fst kv, w)) own))"

text \<open>Modelled from the spec: the state dict of the wrapper, and the load into the
  wrapper, which strips the prefix again.\<close>

definition state_dict_of :: "'i CringeCLIPModel \<Rightarrow> state_dict" where
  "state_dict_of self = map (\<lambda>kv. (''clip_module.'' @ fst kv, snd kv)) (parameters (clip_module self))"

definition load_state_dict :: "'i CringeCLIPModel \<Rightarrow> state_dict \<Rightarrow> error + 'i CringeCLIPModel" where
  "load_state_dict self sd =
     (case load_state_dict_strict (state_dict_of self) sd of
        Inl e \<Rightarrow> Inl e
      | Inr new \<Rightarrow>
          Inr (self\<lparr>clip_module := (clip_module self)
                 \<lparr>parameters := map (\<lambda>kv. (drop (length ''clip_module.'') (fst kv), snd kv)) new\<rparr>\<rparr>))"

text \<open>\<open>obj["state_dict"]\<close>: a checkpoint has the key. A bare state dict has it only as a
  parameter name and then holds a tensor there, which is no state dict to load.\<close>

definition get_state_dict :: "pickled \<Rightarrow> error + state_dict" where
  "get_state_dict obj =
     (case obj of Ckpt c \<Rightarrow> Inr (ckpt_state_dict c)
      | StateDict sd \<Rightarrow>
          (case map_of sd ''state_dict'' of None \<Rightarrow> Inl (KeyError ''state_dict'')
           | Some v \<Rightarrow> Inl (TypeError ''state_dict'')))"

section \<open>The training-style runner\<close>

text \<open>
  Modelled from the spec: the runner (\<open>pl.Trainer\<close>, its \<open>fit\<close> and \<open>save_checkpoint\<close>)
  is the framework's and is not in the notebook. It performs optimisation steps until
  \<open>global_step\<close> reaches \<open>max_steps\<close>; as the notebook's log shows, it first makes a
  sanity check that calls \<open>validation_step\<close> on the first two validation batches. One
  optimisation step computes the loss with \<open>training_step\<close> and lets the optimizer (a
  parameter: the Adam update that \<open>configure_optimizers\<close> sets up) replace the parameter
  values. Saving writes the wrapper's state dict and the step count to the named file.
\<close>

record Trainer =
  max_steps :: nat
  num_sanity_val_steps :: nat
  global_step :: nat

definition Trainer_init :: "nat \<Rightarrow> Trainer" where
  "Trainer_init n = \<lparr>max_steps = n, num_sanity_val_steps = 2, global_step = 0\<rparr>"

fun run_validation ::
  "tensor_lib \<Rightarrow> (matrix \<Rightarrow> 'o \<Rightarrow> error + 'l) \<Rightarrow> 'i CringeCLIPModel \<Rightarrow> (tokens option \<times> 'o) list \<Rightarrow> nat \<Rightarrow> error + unit" where
  "run_validation lib mse_loss self [] i = Inr ()"
| "run_validation lib mse_loss self (b # bs) i =
     (case validation_step lib mse_loss self b i of
        Inl e \<Rightarrow> Inl e
      | Inr loss \<Rightarrow> run_validation lib mse_loss self bs (Suc i))"

fun fit_loop ::
  "tensor_lib \<Rightarrow> ('i CringeCLIPModel \<Rightarrow> tokens option \<times> 'o \<Rightarrow> state_dict) \<Rightarrow> (matrix \<Rightarrow> 'o \<Rightarrow> error + 'l) \<Rightarrow>
   (tokens option \<times> 'o) list \<Rightarrow> nat \<Rightarrow> nat \<Rightarrow> 'i CringeCLIPModel \<Rightarrow> error + (nat \<times> 'i CringeCLIPModel)" where
  "fit_loop lib optimizer mse_loss train_loader 0 step self = Inr (step, self)"
| "fit_loop lib optimizer mse_loss train_loader (Suc n) step self =
     (if train_loader = [] then Inr (step, self)
      else
        (let i = step mod length train_loader; b = train_loader ! i in
         case training_step lib mse_loss self b i of
           Inl e \<Rightarrow> Inl e
         | Inr loss \<Rightarrow>
             fit_loop lib optimizer mse_loss train_loader n (Suc step)
               (self\<lparr>clip_module := (clip_module self)\<lparr>parameters := optimizer self b\<rparr>\<rparr>)))"

definition fit ::
  "tensor_lib \<Rightarrow> ('i CringeCLIPModel \<Rightarrow> tokens option \<times> 'o \<Rightarrow> state_dict) \<Rightarrow> (matrix \<Rightarrow> 'o \<Rightarrow> error + 'l) \<Rightarrow>
   Trainer \<Rightarrow> 'i CringeCLIPModel \<Rightarrow> (tokens option \<times> 'o) list \<Rightarrow> (tokens option \<times> 'o) list \<Rightarrow>
   error + (Trainer \<times> 'i CringeCLIPModel)" where
  "fit lib optimizer mse_loss tr self train_loader val_loader =
     (case run_validation lib mse_loss self (take (num_sanity_val_steps tr) val_loader) 0 of
        Inl e \<Rightarrow> Inl e
      | Inr u \<Rightarrow>
          (case fit_loop lib optimizer mse_loss train_loader (max_steps tr - global_step tr)
                  (global_step tr) self of
             Inl e \<Rightarrow> Inl e
           | Inr (step, self') \<Rightarrow> Inr (tr\<lparr>global_step := step\<rparr>, self')))"

definition save_checkpoint :: "Trainer \<Rightarrow> 'i CringeCLIPModel \<Rightarrow> string \<Rightarrow> fs \<Rightarrow> fs" where
  "save_checkpoint tr self name files =
     files(name \<mapsto> Ckpt \<lparr>ckpt_global_step = global_step tr, ckpt_state_dict = state_dict_of self\<rparr>)"

section \<open>The notebook cells\<close>

text \<open>
  The notebook's globals, the text it has printed, and the cells that change them. The
  global \<open>x\<close> is bound by no cell of the notebook: \<open>global_x\<close> is what an earlier
  session left there, if anything. The two factory results (the freshly created
  pretrained-architecture module and the tokenizer) are parameters of the constructors.
\<close>

record 'i notebook =
  model :: "'i CringeCLIPModel"
  example_output :: ret
  global_x :: "ret option"
  stdout :: "ret list"

text \<open>The constructor of the first class definition loads the pretrained weight file.\<close>

definition CringeCLIPModel_init ::
  "'i CLIP \<Rightarrow> (string list \<Rightarrow> tokens) \<Rightarrow> fs \<Rightarrow> error + 'i CringeCLIPModel" where
  "CringeCLIPModel_init created tok files =
     (case torch_load files ''rn50-quickgelu-yfcc15m.pt'' of
        Inl e \<Rightarrow> Inl e
      | Inr (Ckpt c) \<Rightarrow> Inl (RuntimeError ''Error(s) in loading state_dict'')
      | Inr (StateDict sd) \<Rightarrow>
          (case load_state_dict_strict (parameters created) sd of
             Inl e \<Rightarrow> Inl e
           | Inr new \<Rightarrow> Inr \<lparr>clip_module = created\<lparr>parameters := new\<rparr>, tokenizer = tok\<rparr>))"

text \<open>The constructor of the second class definition does not.\<close>

definition CringeCLIPModel_init2 :: "'i CLIP \<Rightarrow> (string list \<Rightarrow> tokens) \<Rightarrow> 'i CringeCLIPModel" where
  "CringeCLIPModel_init2 created tok = \<lparr>clip_module = created, tokenizer = tok\<rparr>"

text \<open>
  Cell 5 computes the example embedding, binds it to \<open>example_output\<close>, and then prints
  the global \<open>x\<close>, which raises \<open>NameError\<close> when \<open>x\<close> is not bound. A cell that raises
  keeps the globals it has bound so far: the result is the notebook after the cell and
  the exception, if one was raised.
\<close>

definition cell_5 :: "tensor_lib \<Rightarrow> 'i notebook \<Rightarrow> 'i notebook \<times> error option" where
  "cell_5 lib nb =
     (case forward lib (model nb) (Some (tokenizer (model nb) [''a photo of a cat''])) None of
        Inl e \<Rightarrow> (nb, Some e)
      | Inr out \<Rightarrow>
          (let nb = nb\<lparr>example_output := out\<rparr> in
           case global_x nb of
             None \<Rightarrow> (nb, Some (NameError ''x''))
           | Some v \<Rightarrow> (nb\<lparr>stdout := stdout nb @ [v]\<rparr>, None)))"

text \<open>Cell 7: zero steps of the runner, then the checkpoint is saved. The two loaders'
  batches are parameters.\<close>

definition cell_7 ::
  "tensor_lib \<Rightarrow> ('i CringeCLIPModel \<Rightarrow> tokens option \<times> 'o \<Rightarrow> state_dict) \<Rightarrow> (matrix \<Rightarrow> 'o \<Rightarrow> error + 'l) \<Rightarrow>
   (tokens option \<times> 'o) list \<Rightarrow> (tokens option \<times> 'o) list \<Rightarrow> 'i notebook \<Rightarrow> fs \<Rightarrow>
   error + ('i notebook \<times> fs)" where
  "cell_7 lib optimizer mse_loss train_loader val_loader nb files =
     (let model_trainer = Trainer_init 0 in
      case fit lib optimizer mse_loss model_trainer (model nb) train_loader val_loader of
        Inl e \<Rightarrow> Inl e
      | Inr (model_trainer, self') \<Rightarrow>
          Inr (nb\<lparr>model := self'\<rparr>, save_checkpoint model_trainer self' ''cringe_clip.ckpt'' files))"

text \<open>Cell 11: a fresh wrapper, the checkpoint's state dict loaded into it, the same
  input embedded again and printed.\<close>

definition cell_11 ::
  "tensor_lib \<Rightarrow> 'i CLIP \<Rightarrow> (string list \<Rightarrow> tokens) \<Rightarrow> 'i notebook \<Rightarrow> fs \<Rightarrow> error + 'i notebook" where
  "cell_11 lib created tok nb files =
     (let fresh = CringeCLIPModel_init2 created tok in
      case torch_load files ''cringe_clip.ckpt'' of
        Inl e \<Rightarrow> Inl e
      | Inr ckpt \<Rightarrow>
          (case get_state_dict ckpt of
             Inl e \<Rightarrow> Inl e
           | Inr sd \<Rightarrow>
               (case load_state_dict fresh sd of
                  Inl e \<Rightarrow> Inl e
                | Inr loaded \<Rightarrow>
                    (case forward lib loaded (Some (tokenizer loaded [''a photo of a cat''])) None of
                       Inl e \<Rightarrow> Inl e
                     | Inr out \<Rightarrow>
                         Inr (nb\<lparr>model := loaded, example_output := out,
                                 stdout := stdout nb @ [out]\<rparr>)))))"

section \<open>The synthetic dataset\<close>

text \<open>
  \<open>torch.randn\<close> draws from the global generator: a sequence of values and a position
  in it. \<open>squeeze(0)\<close> removes the first dimension exactly when its size is 1.
\<close>

record generator =
  draws :: "nat \<Rightarrow> real"
  pos :: nat

datatype 'a squeezed = Vec "'a list" | Mat "'a list list"

definition squeeze0 :: "'a list list \<Rightarrow> 'a squeezed" where
  "squeeze0 m = (case m of [r] \<Rightarrow> Vec r | _ \<Rightarrow> Mat m)"

definition tensor_size :: "'a list list \<Rightarrow> nat \<times> nat" where
  "tensor_size m = (length m, (case m of [] \<Rightarrow> 0 | r # _ \<Rightarrow> length r))"

fun squeezed_size :: "'a squeezed \<Rightarrow> nat list" where
  "squeezed_size (Vec v) = [length v]"
| "squeezed_size (Mat m) = [fst (tensor_size m), snd (tensor_size m)]"

definition squeeze0_size :: "nat \<times> nat \<Rightarrow> nat list" where
  "squeeze0_size s = (if fst s = 1 then [snd s] else [fst s, snd s])"

definition randn :: "nat \<times> nat \<Rightarrow> generator \<Rightarrow> matrix \<times> generator" where
  "randn s g =
     (map (\<lambda>i. map (\<lambda>j. Fin (draws g (pos g + i * snd s + j))) [0..<snd s]) [0..<fst s],
      g\<lparr>pos := pos g + fst s * snd s\<rparr>)"

record DummyDataset =
  ds_constant :: int
  ds_batch_size :: int

definition DummyDataset_init :: DummyDataset where
  "DummyDataset_init = \<lparr>ds_constant = 2, ds_batch_size = 20\<rparr>"

definition len :: "DummyDataset \<Rightarrow> nat" where
  "len self = 100"

text \<open>\<open>__getitem__\<close> reads the globals \<open>model\<close> and \<open>example_output\<close>; it does not read
  \<open>idx\<close>.\<close>

definition getitem ::
  "'i notebook \<Rightarrow> DummyDataset \<Rightarrow> int \<Rightarrow> generator \<Rightarrow>
   error + ((int squeezed \<times> fval squeezed) \<times> generator)" where
  "getitem nb self idx g =
     (let text = squeeze0 (tokenizer (model nb) [''a photo of a cat'']) in
      case example_output nb of
        PyNone \<Rightarrow> Inl (AttributeError ''size'')
      | Embedding e \<Rightarrow>
          (let drawn = randn (tensor_size e) g;
               output = squeeze0 (fst drawn)
           in Inr ((text, output), snd drawn)))"

text \<open>
  The split of cell 7, \<open>[int(len(dataset)*0.8), int(len(dataset)*0.2)]\<close>, and the sizes
  of the batches a loader with \<open>batch_size=10\<close> makes of that many items (the last batch
  is the remainder, when there is one).
\<close>

definition split_lengths :: "DummyDataset \<Rightarrow> nat \<times> nat" where
  "split_lengths dataset =
     (nat \<lfloor>real (len dataset) * (8 / 10)\<rfloor>, nat \<lfloor>real (len dataset) * (2 / 10)\<rfloor>)"

definition loader_batch_sizes :: "nat \<Rightarrow> nat \<Rightarrow> nat list" where
  "loader_batch_sizes n b = replicate (n div b) b @ (if n mod b = 0 then [] else [n mod b])"

section \<open>Notions of the specification\<close>

text \<open>
  The L2 norm of a row, as the specification means it: the square root of the sum of the
  squares of the values the row holds, in real arithmetic. A row that holds an infinity
  or a NaN has no finite norm.
\<close>

fun fadd :: "fval \<Rightarrow> fval \<Rightarrow> fval" where
  "fadd NaN w = NaN"
| "fadd v NaN = NaN"
| "fadd (Fin a) (Fin b) = Fin (a + b)"
| "fadd PInf NInf = NaN"
| "fadd NInf PInf = NaN"
| "fadd PInf w = PInf"
| "fadd v PInf = PInf"
| "fadd NInf w = NInf"
| "fadd v NInf = NInf"

fun fsquare :: "fval \<Rightarrow> fval" where
  "fsquare (Fin a) = Fin (a * a)"
| "fsquare PInf = PInf"
| "fsquare NInf = PInf"
| "fsquare NaN = NaN"

fun fsqrt :: "fval \<Rightarrow> fval" where
  "fsqrt (Fin a) = (if a < 0 then NaN else Fin (sqrt a))"
| "fsqrt PInf = PInf"
| "fsqrt NInf = NaN"
| "fsqrt NaN = NaN"

primrec fsum :: "fval list \<Rightarrow> fval" where
  "fsum [] = Fin 0"
| "fsum (v # vs) = fadd (fsquare v) (fsum vs)"

definition l2_norm :: "row \<Rightarrow> fval" where
  "l2_norm r = fsqrt (fsum r)"

text \<open>
  A row has unit norm within the tolerance the specification names when its L2 norm is a
  finite value less than \<open>1e-5\<close> away from 1.
\<close>

definition unit_norm :: "row \<Rightarrow> bool" where
  "unit_norm r = (case l2_norm r of Fin n \<Rightarrow> \<bar>n - 1\<bar> < 1 / 100000 | _ \<Rightarrow> False)"

text \<open>The raw embedding is what the encoder of the branch taken returns, before the
  division.\<close>

definition raw_embedding :: "'i CringeCLIPModel \<Rightarrow> tokens option \<Rightarrow> 'i option \<Rightarrow> matrix option" where
  "raw_embedding self text img =
     (case img of
        Some i \<Rightarrow> Some (encode_image (clip_module self) i)
      | None \<Rightarrow>
          (case text of
             Some t \<Rightarrow> Some (encode_text (clip_module self) t)
           | None \<Rightarrow> None))"

text \<open>
  What the unit norm of a returned row rests on. The library's norm of the row is
  accurate within \<open>eps\<close> when it is finite, not zero, and within the relative error
  \<open>eps\<close> of the L2 norm; the quotients of the row are accurate within \<open>eps\<close> when every
  entry is finite and its quotient by the library's norm is rounded to a finite value
  within the relative error \<open>eps\<close>. Overflow and underflow break the one or the other.
\<close>

definition norm_accurate :: "tensor_lib \<Rightarrow> real \<Rightarrow> row \<Rightarrow> bool" where
  "norm_accurate lib eps r =
     (case vector_norm lib r of
        Fin n \<Rightarrow>
          (case l2_norm r of
             Fin m \<Rightarrow> n \<noteq> 0 \<and> \<bar>n - m\<bar> \<le> eps * m
           | _ \<Rightarrow> False)
      | _ \<Rightarrow> False)"

definition quotient_accurate :: "tensor_lib \<Rightarrow> real \<Rightarrow> fval \<Rightarrow> fval \<Rightarrow> bool" where
  "quotient_accurate lib eps n v =
     (case v of
        Fin a \<Rightarrow>
          (case n of
             Fin b \<Rightarrow>
               (case round_quotient lib (a / b) of
                  Fin q \<Rightarrow> \<bar>q - a / b\<bar> \<le> eps * \<bar>a / b\<bar>
                | _ \<Rightarrow> False)
           | _ \<Rightarrow> False)
      | _ \<Rightarrow> False)"

definition quotients_accurate :: "tensor_lib \<Rightarrow> real \<Rightarrow> row \<Rightarrow> bool" where
  "quotients_accurate lib eps r = list_all (quotient_accurate lib eps (vector_norm lib r)) r"

section \<open>Small instances\<close>

text \<open>
  Three instances of the tensor library, to run the definitions on concrete inputs. The
  first computes exactly. The second returns a norm that is too large by one part in ten
  million. The third is a coarse stand-in for single precision: in its norm a square
  below \<open>1e-45\<close> underflows to zero and a square above \<open>1e38\<close> overflows, and a quotient
  is returned as it is.
\<close>

definition exact_lib :: tensor_lib where
  "exact_lib = \<lparr>vector_norm = l2_norm, round_quotient = Fin\<rparr>"

definition biased_norm :: "row \<Rightarrow> fval" where
  "biased_norm r = (case l2_norm r of Fin m \<Rightarrow> Fin (m * (1 + 1 / 10000000)) | v \<Rightarrow> v)"

definition biased_lib :: tensor_lib where
  "biased_lib = \<lparr>vector_norm = biased_norm, round_quotient = Fin\<rparr>"

fun coarse_square :: "fval \<Rightarrow> fval" where
  "coarse_square (Fin a) =
     (if a * a < 1 / 10 ^ 45 then Fin 0 else if 10 ^ 38 < a * a then PInf else Fin (a * a))"
| "coarse_square PInf = PInf"
| "coarse_square NInf = PInf"
| "coarse_square NaN = NaN"

primrec coarse_sum :: "fval list \<Rightarrow> fval" where
  "coarse_sum [] = Fin 0"
| "coarse_sum (v # vs) = fadd (coarse_square v) (coarse_sum vs)"

definition coarse_lib :: tensor_lib where
  "coarse_lib = \<lparr>vector_norm = (\<lambda>r. fsqrt (coarse_sum r)), round_quotient = Fin\<rparr>"

text \<open>
  A wrapper with one parameter tensor \<open>w\<close>: both encoders return \<open>w\<close> as the raw
  embedding of every input row.
\<close>

definition toy_emb :: "state_dict \<Rightarrow> row" where
  "toy_emb p = (case map_of p ''w'' of Some w \<Rightarrow> w | None \<Rightarrow> [])"

definition toy_tokenizer :: "string list \<Rightarrow> tokens" where
  "toy_tokenizer ss = map (\<lambda>s. [int (length s)]) ss"

definition toy_clip :: "fval list \<Rightarrow> nat CLIP" where
  "toy_clip w =
     \<lparr>visual = (\<lambda>p i. [toy_emb p]), textual = (\<lambda>p t. map (\<lambda>r. toy_emb p) t),
      parameters = [(''w'', w)]\<rparr>"

definition toy_model :: "fval list \<Rightarrow> nat CringeCLIPModel" where
  "toy_model w = \<lparr>clip_module = toy_clip w, tokenizer = toy_tokenizer\<rparr>"

definition toy_notebook :: "fval list \<Rightarrow> nat notebook" where
  "toy_notebook w =
     \<lparr>model = toy_model w, example_output = Embedding [normalize_row exact_lib w],
      global_x = None, stdout = []\<rparr>"

definition toy_mse :: "matrix \<Rightarrow> matrix \<Rightarrow> error + fval" where
  "toy_mse y t = Inr (fsum (concat y))"

definition toy_optimizer :: "nat CringeCLIPModel \<Rightarrow> tokens option \<times> matrix \<Rightarrow> state_dict" where
  "toy_optimizer self b = [(''w'', [Fin 7, Fin 7])]"

section \<open>Forward dispatch\<close>

lemma forward_image: "forward lib self text (Some i) =
    Inr (Embedding (normalize lib (encode_image (clip_module self) i)))"
  by (simp add: forward_def)

lemma forward_text: "forward lib self (Some t) None =
    Inr (Embedding (normalize lib (encode_text (clip_module self) t)))"
  by (simp add: forward_def)

lemma forward_neither: "forward lib self None None =
    Inl (ValueError ''Must provide either text or image'')"
  by (simp add: forward_def)

text \<open>
  C3: the dispatch raises the usage error exactly when neither a text nor an image is
  supplied; when at least one is supplied it returns an embedding.
\<close>

theorem forward_usage_error_iff:
  "(forward lib self text img = Inl (ValueError ''Must provide either text or image'')
      \<longleftrightarrow> text = None \<and> img = None)
   \<and> ((\<exists>e. forward lib self text img = Inl e) \<longleftrightarrow> text = None \<and> img = None)
   \<and> (text \<noteq> None \<or> img \<noteq> None \<longrightarrow> (\<exists>x. forward lib self text img = Inr (Embedding x)))"
  by (cases "text"; cases img) (simp_all add: forward_image forward_text forward_neither)

theorem forward_usage_error_iff_witness:
  "forward exact_lib (toy_model [Fin 3, Fin 4]) (Some [[1, 2]]) None
     \<noteq> Inl (ValueError ''Must provide either text or image'')
   \<and> (\<exists>x. forward exact_lib (toy_model [Fin 3, Fin 4]) (Some [[1, 2]]) None = Inr (Embedding x))
   \<and> forward exact_lib (toy_model [Fin 3, Fin 4]) None None
     = Inl (ValueError ''Must provide either text or image'')"
  using forward_usage_error_iff [of exact_lib "toy_model [Fin 3, Fin 4]" "Some [[1, 2]]" None]
    forward_usage_error_iff [of exact_lib "toy_model [Fin 3, Fin 4]" None None]
  by simp

text \<open>
  C4: when both a text and an image are supplied the image branch is taken; the result is
  the one of the call with the image alone, whatever the text.
\<close>

theorem forward_image_precedence:
  "forward lib self (Some t) (Some i) = forward lib self None (Some i)
   \<and> forward lib self (Some t) (Some i)
       = Inr (Embedding (normalize lib (encode_image (clip_module self) i)))"
  by (simp add: forward_image)

text \<open>
  C9: no combination of the two optional arguments makes the dispatch fall through its
  branches and return \<open>None\<close>: it raises the usage error or returns an embedding.
\<close>

theorem forward_never_none:
  "forward lib self text img \<noteq> Inr PyNone
   \<and> (forward lib self text img = Inl (ValueError ''Must provide either text or image'')
      \<or> (\<exists>x. forward lib self text img = Inr (Embedding x)))"
  by (cases "text"; cases img) (simp_all add: forward_image forward_text forward_neither)

text \<open>
  C10: \<open>training_step\<close> and \<open>validation_step\<close> are the same function of the batch, and
  neither reads the batch index; on a batch with a text both return the MSE loss between
  the normalized text embedding and the target.
\<close>

theorem training_validation_step_equal:
  "training_step lib mse_loss self b i = validation_step lib mse_loss self b j
   \<and> training_step lib mse_loss self (Some t, output) i
       = mse_loss (normalize lib (encode_text (clip_module self) t)) output
   \<and> validation_step lib mse_loss self (Some t, output) j
       = mse_loss (normalize lib (encode_text (clip_module self) t)) output"
  by (simp add: training_step_def validation_step_def forward_text)

section \<open>The L2 norm\<close>

lemma fsum_map_Fin: "fsum (map Fin xs) = Fin (\<Sum>x\<leftarrow>xs. x * x)"
  by (induction xs) simp_all

lemma fadd_eq_Fin: "fadd v w = Fin s \<Longrightarrow> \<exists>a b. v = Fin a \<and> w = Fin b \<and> s = a + b"
  by (cases v; cases w) simp_all

lemma fsquare_eq_Fin: "fsquare v = Fin s \<Longrightarrow> \<exists>a. v = Fin a \<and> s = a * a"
  by (cases v) simp_all

lemma fsum_eq_Fin: "fsum r = Fin s \<Longrightarrow> \<exists>xs. r = map Fin xs \<and> s = (\<Sum>x\<leftarrow>xs. x * x)"
proof (induction r arbitrary: s)
  case Nil
  then show ?case by simp
next
  case (Cons v vs)
  from Cons.prems obtain a b where ab: "fsquare v = Fin a" "fsum vs = Fin b" "s = a + b"
    by (auto dest: fadd_eq_Fin)
  from ab(1) obtain c where c: "v = Fin c" "a = c * c"
    by (auto dest: fsquare_eq_Fin)
  from Cons.IH [OF ab(2)] obtain xs where xs: "vs = map Fin xs" "b = (\<Sum>x\<leftarrow>xs. x * x)"
    by blast
  have "v # vs = map Fin (c # xs) \<and> s = (\<Sum>x\<leftarrow>c # xs. x * x)"
    using ab(3) c xs by simp
  then show ?case by (rule exI [of _ "c # xs"])
qed

lemma sum_squares_nonneg: "0 \<le> (\<Sum>x\<leftarrow>xs. x * x :: real)"
  by (induction xs) simp_all

lemma l2_norm_map_Fin: "l2_norm (map Fin xs) = Fin (sqrt (\<Sum>x\<leftarrow>xs. x * x))"
  using sum_squares_nonneg [of xs] by (simp add: l2_norm_def fsum_map_Fin)

lemma l2_norm_eq_Fin:
  assumes "l2_norm r = Fin n"
  shows "\<exists>xs. r = map Fin xs \<and> n = sqrt (\<Sum>x\<leftarrow>xs. x * x)"
proof -
  from assms obtain s where s: "fsum r = Fin s"
    by (cases "fsum r") (simp_all add: l2_norm_def)
  from fsum_eq_Fin [OF s] obtain xs where xs: "r = map Fin xs" "s = (\<Sum>x\<leftarrow>xs. x * x)"
    by blast
  with assms have "n = sqrt (\<Sum>x\<leftarrow>xs. x * x)"
    by (simp add: l2_norm_map_Fin)
  with xs show ?thesis by blast
qed

lemma sum_squares_div: "(\<Sum>x\<leftarrow>xs. (x / n) * (x / n) :: real) = (\<Sum>x\<leftarrow>xs. x * x) / (n * n)"
  by (induction xs) (simp_all add: add_divide_distrib)

lemma sqrt_25: "sqrt 25 = 5"
  using real_sqrt_abs [of 5] by simp

section \<open>Division by the norm\<close>

lemma forward_raw:
  "raw_embedding self text img = Some x \<Longrightarrow>
     forward lib self text img = Inr (Embedding (normalize lib x))"
  by (cases "text"; cases img) (auto simp add: raw_embedding_def forward_image forward_text)

lemma fdiv_zero_not_finite: "\<not> is_finite (fdiv lib v (Fin 0))"
  by (cases v) simp_all

lemma normalize_nth:
  "i < length x \<Longrightarrow> normalize lib x ! i = map (\<lambda>v. fdiv lib v (vector_norm lib (x ! i))) (x ! i)"
  by (simp add: normalize_def normalize_row_def)

lemma square_bounds:
  fixes q t eps :: real
  assumes "\<bar>q - t\<bar> \<le> eps * \<bar>t\<bar>" and "0 \<le> eps" and "eps \<le> 1"
  shows "(1 - eps) * (1 - eps) * (t * t) \<le> q * q" and "q * q \<le> (1 + eps) * (1 + eps) * (t * t)"
proof -
  have "\<bar>(1 + eps) * t\<bar> = (1 + eps) * \<bar>t\<bar>"
    using assms(2) by (simp add: abs_mult)
  then have e1: "\<bar>(1 + eps) * t\<bar> = \<bar>t\<bar> + eps * \<bar>t\<bar>"
    by (simp add: algebra_simps)
  have "\<bar>(1 - eps) * t\<bar> = (1 - eps) * \<bar>t\<bar>"
    using assms(3) by (simp add: abs_mult)
  then have e2: "\<bar>(1 - eps) * t\<bar> = \<bar>t\<bar> - eps * \<bar>t\<bar>"
    by (simp add: algebra_simps)
  have up: "\<bar>q\<bar> \<le> \<bar>(1 + eps) * t\<bar>"
    unfolding e1 using assms(1) by linarith
  have lo: "\<bar>(1 - eps) * t\<bar> \<le> \<bar>q\<bar>"
    unfolding e2 using assms(1) by linarith
  from up have "q\<^sup>2 \<le> ((1 + eps) * t)\<^sup>2" by (simp only: abs_le_square_iff)
  then show "q * q \<le> (1 + eps) * (1 + eps) * (t * t)"
    by (simp add: power2_eq_square algebra_simps)
  from lo have "((1 - eps) * t)\<^sup>2 \<le> q\<^sup>2" by (simp only: abs_le_square_iff)
  then show "(1 - eps) * (1 - eps) * (t * t) \<le> q * q"
    by (simp add: power2_eq_square algebra_simps)
qed

lemma unit_norm_bounds:
  fixes m n eps Q S :: real
  assumes eps: "0 \<le> eps" "eps \<le> 4 / 1000000"
    and m: "0 < m" and nm: "\<bar>n - m\<bar> \<le> eps * m"
    and S: "m = sqrt S"
    and lo: "(1 - eps) * (1 - eps) * (S / (n * n)) \<le> Q"
    and up: "Q \<le> (1 + eps) * (1 + eps) * (S / (n * n))"
  shows "\<bar>sqrt Q - 1\<bar> < 1 / 100000"
proof -
  have n_lo: "(1 - eps) * m \<le> n" and n_up: "n \<le> (1 + eps) * m"
    using nm unfolding abs_le_iff by (simp_all add: algebra_simps)
  have "0 < (1 - eps) * m"
    using eps m by simp
  with n_lo have n: "0 < n" by linarith
  have sqT: "sqrt (S / (n * n)) = m / n"
    using n S by (simp add: real_sqrt_divide real_sqrt_mult)
  have sq_up: "sqrt ((1 + eps) * (1 + eps) * (S / (n * n))) = (1 + eps) * (m / n)"
  proof -
    have "sqrt ((1 + eps) * (1 + eps) * (S / (n * n)))
            = sqrt ((1 + eps) * (1 + eps)) * sqrt (S / (n * n))"
      by (rule real_sqrt_mult)
    moreover have "sqrt ((1 + eps) * (1 + eps)) = 1 + eps"
      using eps by simp
    ultimately show ?thesis by (simp only: sqT)
  qed
  have sq_lo: "sqrt ((1 - eps) * (1 - eps) * (S / (n * n))) = (1 - eps) * (m / n)"
  proof -
    have "sqrt ((1 - eps) * (1 - eps) * (S / (n * n)))
            = sqrt ((1 - eps) * (1 - eps)) * sqrt (S / (n * n))"
      by (rule real_sqrt_mult)
    moreover have "sqrt ((1 - eps) * (1 - eps)) = 1 - eps"
      using eps by simp
    ultimately show ?thesis by (simp only: sqT)
  qed
  have "sqrt Q \<le> sqrt ((1 + eps) * (1 + eps) * (S / (n * n)))"
    using up by (simp only: real_sqrt_le_iff)
  then have "sqrt Q \<le> (1 + eps) * (m / n)"
    by (simp only: sq_up)
  then have U: "sqrt Q \<le> (1 + eps) * m / n"
    by simp
  have "sqrt ((1 - eps) * (1 - eps) * (S / (n * n))) \<le> sqrt Q"
    using lo by (simp only: real_sqrt_le_iff)
  then have "(1 - eps) * (m / n) \<le> sqrt Q"
    by (simp only: sq_lo)
  then have L: "(1 - eps) * m / n \<le> sqrt Q"
    by simp
  have k1: "1 + eps < (1 + 1 / 100000) * (1 - eps)"
    using eps by (simp add: algebra_simps)
  have "(1 + eps) * m < (1 + 1 / 100000) * (1 - eps) * m"
    using k1 m by (rule mult_strict_right_mono)
  also have "\<dots> = (1 + 1 / 100000) * ((1 - eps) * m)" by simp
  also have "\<dots> \<le> (1 + 1 / 100000) * n"
    using n_lo by (intro mult_left_mono) simp_all
  finally have "(1 + eps) * m / n < 1 + 1 / 100000"
    using n by (simp add: field_simps)
  with U have up': "sqrt Q < 1 + 1 / 100000" by linarith
  have k2: "(1 - 1 / 100000) * (1 + eps) < 1 - eps"
    using eps by argo
  have "(1 - 1 / 100000) * n \<le> (1 - 1 / 100000) * ((1 + eps) * m)"
    using n_up by (intro mult_left_mono) simp_all
  also have "\<dots> = (1 - 1 / 100000) * (1 + eps) * m" by simp
  also have "\<dots> < (1 - eps) * m"
    using k2 m by (rule mult_strict_right_mono)
  finally have "1 - 1 / 100000 < (1 - eps) * m / n"
    using n by (simp add: field_simps)
  with L have lo': "1 - 1 / 100000 < sqrt Q" by linarith
  from up' lo' show ?thesis by linarith
qed

lemma normalize_row_accurate:
  assumes eps: "0 \<le> eps" "eps \<le> 4 / 1000000"
    and na: "norm_accurate lib eps r"
    and qa: "quotients_accurate lib eps r"
  shows "unit_norm (normalize_row lib r)"
proof -
  from na obtain n m where n: "vector_norm lib r = Fin n" and m: "l2_norm r = Fin m"
    and n0: "n \<noteq> 0" and nm: "\<bar>n - m\<bar> \<le> eps * m"
    by (auto simp add: norm_accurate_def split: fval.splits)
  from l2_norm_eq_Fin [OF m] obtain xs where xs: "r = map Fin xs"
    and mS: "m = sqrt (\<Sum>x\<leftarrow>xs. x * x)"
    by blast
  have "0 \<le> m"
    using mS sum_squares_nonneg [of xs] by simp
  moreover have "m \<noteq> 0"
    using n0 nm by auto
  ultimately have m0: "0 < m" by simp
  define g where "g a = (case round_quotient lib (a / n) of Fin q \<Rightarrow> q | _ \<Rightarrow> 0)" for a
  from qa have all: "\<forall>v\<in>set r. quotient_accurate lib eps (Fin n) v"
    by (simp add: quotients_accurate_def list_all_iff n)
  have acc: "round_quotient lib (a / n) = Fin (g a) \<and> \<bar>g a - a / n\<bar> \<le> eps * \<bar>a / n\<bar>"
    if "a \<in> set xs" for a
  proof -
    from that have "Fin a \<in> set r" by (simp add: xs)
    with all have "quotient_accurate lib eps (Fin n) (Fin a)" by blast
    then show ?thesis
      by (cases "round_quotient lib (a / n)") (simp_all add: quotient_accurate_def g_def)
  qed
  have "normalize_row lib r = map (\<lambda>v. fdiv lib v (Fin n)) r"
    by (simp add: normalize_row_def n)
  also have "\<dots> = map (\<lambda>a. fdiv lib (Fin a) (Fin n)) xs"
    by (simp add: xs comp_def)
  also have "\<dots> = map (\<lambda>a. Fin (g a)) xs"
    using n0 acc by simp
  finally have out: "normalize_row lib r = map Fin (map g xs)"
    by (simp add: comp_def)
  have e1: "eps \<le> 1" using eps by simp
  have scale: "(\<Sum>a\<leftarrow>xs. c * ((a / n) * (a / n))) = c * ((\<Sum>x\<leftarrow>xs. x * x) / (n * n))"
    for c :: real
    by (simp only: sum_list_const_mult sum_squares_div)
  have "(\<Sum>a\<leftarrow>xs. (1 - eps) * (1 - eps) * ((a / n) * (a / n))) \<le> (\<Sum>a\<leftarrow>xs. g a * g a)"
    using acc square_bounds(1) [OF _ eps(1) e1] by (intro sum_list_mono) blast
  then have lo: "(1 - eps) * (1 - eps) * ((\<Sum>x\<leftarrow>xs. x * x) / (n * n)) \<le> (\<Sum>a\<leftarrow>xs. g a * g a)"
    by (simp only: scale)
  have "(\<Sum>a\<leftarrow>xs. g a * g a) \<le> (\<Sum>a\<leftarrow>xs. (1 + eps) * (1 + eps) * ((a / n) * (a / n)))"
    using acc square_bounds(2) [OF _ eps(1) e1] by (intro sum_list_mono) blast
  then have up: "(\<Sum>a\<leftarrow>xs. g a * g a) \<le> (1 + eps) * (1 + eps) * ((\<Sum>x\<leftarrow>xs. x * x) / (n * n))"
    by (simp only: scale)
  have "\<bar>sqrt (\<Sum>a\<leftarrow>xs. g a * g a) - 1\<bar> < 1 / 100000"
    using eps m0 nm mS lo up by (rule unit_norm_bounds)
  moreover have "l2_norm (normalize_row lib r) = Fin (sqrt (\<Sum>a\<leftarrow>xs. g a * g a))"
  proof -
    have "l2_norm (normalize_row lib r) = Fin (sqrt (\<Sum>q\<leftarrow>map g xs. q * q))"
      unfolding out by (rule l2_norm_map_Fin)
    moreover have "(\<Sum>q\<leftarrow>map g xs. q * q) = (\<Sum>a\<leftarrow>xs. g a * g a)"
      by (simp add: comp_def)
    ultimately show ?thesis by simp
  qed
  ultimately show ?thesis
    by (simp add: unit_norm_def)
qed

section \<open>The small instances, evaluated\<close>

lemma toy_model_sel:
  "clip_module (toy_model w) = toy_clip w" "tokenizer (toy_model w) = toy_tokenizer"
  by (simp_all add: toy_model_def)

lemma toy_clip_sel:
  "parameters (toy_clip w) = [(''w'', w)]" "encode_text (toy_clip w) t = map (\<lambda>r. w) t"
  "encode_image (toy_clip w) i = [w]"
  "visual (toy_clip w) = visual (toy_clip v)" "textual (toy_clip w) = textual (toy_clip v)"
  by (simp_all add: toy_clip_def encode_text_def encode_image_def toy_emb_def)

lemma toy_tokenizer_cat: "toy_tokenizer [''a photo of a cat''] = [[16]]"
  by (simp add: toy_tokenizer_def)

lemma toy_forward:
  "forward lib (toy_model w) (Some [[16]]) None = Inr (Embedding [normalize_row lib w])"
  by (simp add: forward_text toy_model_sel toy_clip_sel normalize_def)

lemma toy_raw_text: "raw_embedding (toy_model w) (Some [[1, 2]]) None = Some [w]"
  by (simp add: raw_embedding_def toy_model_sel toy_clip_sel)

lemma toy_raw_image: "raw_embedding (toy_model w) None (Some 0) = Some [w]"
  by (simp add: raw_embedding_def toy_model_sel toy_clip_sel)

lemma l2_norm_3_4: "l2_norm [Fin 3, Fin 4] = Fin 5"
  by (simp add: l2_norm_def sqrt_25)

lemma normalize_row_3_4: "normalize_row exact_lib [Fin 3, Fin 4] = [Fin (3 / 5), Fin (4 / 5)]"
  by (simp add: normalize_row_def exact_lib_def l2_norm_3_4)

lemma normalize_row_0_1: "normalize_row exact_lib [Fin 0, Fin 1] = [Fin 0, Fin 1]"
  by (simp add: normalize_row_def exact_lib_def l2_norm_def)

lemma normalize_row_zero: "normalize_row exact_lib [Fin 0, Fin 0] = [NaN, NaN]"
  by (simp add: normalize_row_def exact_lib_def l2_norm_def)

text \<open>The coarse library on a row whose squares overflow and on one whose squares
  underflow: the first comes back as zeros, the second as infinities.\<close>

lemma coarse_overflow:
  "vector_norm coarse_lib [Fin (10 ^ 30), Fin (10 ^ 30)] = PInf"
  "normalize_row coarse_lib [Fin (10 ^ 30), Fin (10 ^ 30)] = [Fin 0, Fin 0]"
  by (simp_all add: normalize_row_def coarse_lib_def)

lemma coarse_underflow:
  "vector_norm coarse_lib [Fin (1 / 10 ^ 30), Fin (- (1 / 10 ^ 30))] = Fin 0"
  "normalize_row coarse_lib [Fin (1 / 10 ^ 30), Fin (- (1 / 10 ^ 30))] = [PInf, NInf]"
  by (simp_all add: normalize_row_def coarse_lib_def)

lemma biased_norm_3_4: "vector_norm biased_lib [Fin 3, Fin 4] = Fin (10000001 / 2000000)"
  by (simp add: biased_lib_def biased_norm_def l2_norm_3_4)

lemma normalize_row_biased:
  "normalize_row biased_lib [Fin 3, Fin 4] = [Fin (6000000 / 10000001), Fin (8000000 / 10000001)]"
  by (simp add: normalize_row_def biased_norm_3_4) (simp add: biased_lib_def)

section \<open>Unit norm\<close>

text \<open>
  C5: the division is unguarded. When the norm of a row of the raw embedding is exactly
  zero, the dispatch raises nothing and returns; every entry of that row of the output is
  the entry divided by zero, which is a NaN or an infinity, so no entry of the row is
  finite.
\<close>

theorem zero_norm_row_nonfinite:
  assumes "raw_embedding self text img = Some x"
    and "i < length x"
    and "vector_norm lib (x ! i) = Fin 0"
  shows "forward lib self text img = Inr (Embedding (normalize lib x))
           \<and> length (normalize lib x) = length x
           \<and> normalize lib x ! i = map (\<lambda>v. fdiv lib v (Fin 0)) (x ! i)
           \<and> length (normalize lib x ! i) = length (x ! i)
           \<and> (\<forall>v\<in>set (normalize lib x ! i). \<not> is_finite v)"
proof -
  have "forward lib self text img = Inr (Embedding (normalize lib x))"
    using assms(1) by (rule forward_raw)
  moreover have "length (normalize lib x) = length x"
    by (simp add: normalize_def)
  moreover have "normalize lib x ! i = map (\<lambda>v. fdiv lib v (Fin 0)) (x ! i)"
    using assms(2) assms(3) by (simp add: normalize_nth)
  ultimately show ?thesis
    by (simp add: fdiv_zero_not_finite)
qed

theorem zero_norm_row_nonfinite_witness:
  "vector_norm exact_lib [Fin 0, Fin 0] = Fin 0
   \<and> forward exact_lib (toy_model [Fin 0, Fin 0]) (Some [[1, 2]]) None = Inr (Embedding [[NaN, NaN]])
   \<and> vector_norm coarse_lib [Fin (1 / 10 ^ 30), Fin (- (1 / 10 ^ 30))] = Fin 0
   \<and> forward coarse_lib (toy_model [Fin (1 / 10 ^ 30), Fin (- (1 / 10 ^ 30))]) None (Some 0)
       = Inr (Embedding [[PInf, NInf]])"
proof -
  have z: "vector_norm exact_lib [Fin 0, Fin 0] = Fin 0"
    by (simp add: exact_lib_def l2_norm_def)
  from zero_norm_row_nonfinite [OF toy_raw_text [of "[Fin 0, Fin 0]"],
      where i = 0 and lib = exact_lib] z
  have a: "forward exact_lib (toy_model [Fin 0, Fin 0]) (Some [[1, 2]]) None
            = Inr (Embedding [[NaN, NaN]])"
    by (simp add: normalize_def normalize_row_zero)
  from zero_norm_row_nonfinite [OF toy_raw_image [of "[Fin (1 / 10 ^ 30), Fin (- (1 / 10 ^ 30))]"],
      where i = 0 and lib = coarse_lib] coarse_underflow(1)
  have b: "forward coarse_lib (toy_model [Fin (1 / 10 ^ 30), Fin (- (1 / 10 ^ 30))]) None (Some 0)
            = Inr (Embedding [[PInf, NInf]])"
    by (simp add: normalize_def coarse_underflow(2))
  from z a coarse_underflow(1) b show ?thesis by simp
qed

text \<open>
  C2, as stated, fails: a text input whose raw embedding row is zero is answered with a
  row of NaN, whose norm is not within the tolerance of 1.
\<close>

theorem unit_norm_counterexample:
  "forward exact_lib (toy_model [Fin 0, Fin 0]) (Some [[1, 2]]) None = Inr (Embedding [[NaN, NaN]])
   \<and> \<not> unit_norm [NaN, NaN]"
  by (simp add: forward_text toy_model_sel toy_clip_sel normalize_def normalize_row_zero
      unit_norm_def l2_norm_def)

text \<open>
  C2, amended: for a text or an image input, a row of the raw embedding is returned with
  L2 norm within \<open>1e-5\<close> of 1 whenever, for some relative error \<open>eps\<close> of at most
  \<open>4e-6\<close>, the library's norm of the row is accurate within \<open>eps\<close> (finite, not zero,
  within \<open>eps\<close> of the L2 norm) and the quotients of the row are accurate within \<open>eps\<close>
  (finite entries, each quotient rounded to a finite value within \<open>eps\<close>).
\<close>

theorem unit_norm_accurate_rows:
  assumes "raw_embedding self text img = Some x"
    and "i < length x"
    and "0 \<le> eps" and "eps \<le> 4 / 1000000"
    and "norm_accurate lib eps (x ! i)"
    and "quotients_accurate lib eps (x ! i)"
  shows "forward lib self text img = Inr (Embedding (normalize lib x))
           \<and> length (normalize lib x) = length x
           \<and> unit_norm (normalize lib x ! i)"
proof -
  have "forward lib self text img = Inr (Embedding (normalize lib x))"
    using assms(1) by (rule forward_raw)
  moreover have "length (normalize lib x) = length x"
    by (simp add: normalize_def)
  moreover have "unit_norm (normalize lib x ! i)"
    using assms(2) normalize_row_accurate [OF assms(3) assms(4) assms(5) assms(6)]
    by (simp add: normalize_def)
  ultimately show ?thesis by simp
qed

theorem unit_norm_accurate_rows_witness:
  "norm_accurate biased_lib (1 / 1000000) [Fin 3, Fin 4]
   \<and> quotients_accurate biased_lib (1 / 1000000) [Fin 3, Fin 4]
   \<and> forward biased_lib (toy_model [Fin 3, Fin 4]) None (Some 0)
       = Inr (Embedding [[Fin (6000000 / 10000001), Fin (8000000 / 10000001)]])
   \<and> unit_norm [Fin (6000000 / 10000001), Fin (8000000 / 10000001)]"
proof -
  have na: "norm_accurate biased_lib (1 / 1000000) [Fin 3, Fin 4]"
    by (simp add: norm_accurate_def biased_norm_3_4 l2_norm_3_4)
  have qa: "quotients_accurate biased_lib (1 / 1000000) [Fin 3, Fin 4]"
    by (simp add: quotients_accurate_def quotient_accurate_def biased_norm_3_4)
       (simp add: biased_lib_def)
  from unit_norm_accurate_rows [OF toy_raw_image [of "[Fin 3, Fin 4]"],
      where i = 0 and lib = biased_lib and eps = "1 / 1000000"] na qa
  show ?thesis
    by (simp add: normalize_def normalize_row_biased)
qed

section \<open>The synthetic dataset: items and batches\<close>

lemma length_randn: "length (fst (randn s g)) = fst s"
  by (simp add: randn_def)

lemma squeeze0_Mat: "length m \<noteq> 1 \<Longrightarrow> squeeze0 m = Mat m"
proof (cases m)
  case Nil
  then show ?thesis by (simp add: squeeze0_def)
next
  case (Cons r rs)
  assume "length m \<noteq> 1"
  with Cons show ?thesis by (cases rs) (simp_all add: squeeze0_def)
qed

lemma tensor_size_randn:
  assumes "fst s = 0 \<Longrightarrow> snd s = 0"
  shows "tensor_size (fst (randn s g)) = s"
proof (cases "fst s = 0")
  case True
  with assms have "s = (0, 0)" by (simp add: prod_eq_iff)
  then show ?thesis by (simp add: randn_def tensor_size_def)
next
  case False
  then have "[0..<fst s] = 0 # [1..<fst s]"
    by (simp add: upt_conv_Cons)
  with False show ?thesis
    by (simp add: randn_def tensor_size_def prod_eq_iff)
qed

lemma squeezed_size_randn:
  assumes "fst s = 0 \<Longrightarrow> snd s = 0"
  shows "squeezed_size (squeeze0 (fst (randn s g))) = squeeze0_size s"
proof (cases "fst s = 1")
  case True
  then have "fst (randn s g) = [map (\<lambda>j. Fin (draws g (pos g + j))) [0..<snd s]]"
    by (simp add: randn_def)
  with True show ?thesis by (simp add: squeeze0_def squeeze0_size_def)
next
  case False
  then have "squeeze0 (fst (randn s g)) = Mat (fst (randn s g))"
    by (simp add: squeeze0_Mat length_randn)
  with False show ?thesis
    by (simp add: tensor_size_randn [OF assms] squeeze0_size_def)
qed

lemma tensor_size_empty: "fst (tensor_size e) = 0 \<Longrightarrow> snd (tensor_size e) = 0"
  by (simp add: tensor_size_def)

lemma split_lengths_eq: "split_lengths dataset = (80, 20)"
  by (simp add: split_lengths_def len_def)

lemma loader_batch_sizes_80: "loader_batch_sizes 80 10 = replicate 8 10"
  by (simp add: loader_batch_sizes_def)

lemma loader_batch_sizes_20: "loader_batch_sizes 20 10 = replicate 2 10"
  by (simp add: loader_batch_sizes_def)

text \<open>
  C8: whatever the index and the state of the generator, the item is the tokenized fixed
  sentence, squeezed, and a freshly drawn target whose shape is the squeezed shape of the
  example embedding; the splits of 80 and 20 items are cut into batches of exactly 10.
\<close>

theorem getitem_fixed_text_dummy_target:
  assumes "example_output nb = Embedding e"
  shows "getitem nb dataset idx g =
           Inr ((squeeze0 (tokenizer (model nb) [''a photo of a cat'']),
                 squeeze0 (fst (randn (tensor_size e) g))), snd (randn (tensor_size e) g))
         \<and> squeezed_size (squeeze0 (fst (randn (tensor_size e) g))) = squeeze0_size (tensor_size e)
         \<and> set (loader_batch_sizes (fst (split_lengths dataset)) 10) = {10}
         \<and> set (loader_batch_sizes (snd (split_lengths dataset)) 10) = {10}"
  using assms
  by (simp add: getitem_def Let_def squeezed_size_randn [OF tensor_size_empty] split_lengths_eq
      loader_batch_sizes_80 loader_batch_sizes_20)

theorem getitem_fixed_text_dummy_target_witness:
  "example_output (toy_notebook [Fin 3, Fin 4]) = Embedding [[Fin (3 / 5), Fin (4 / 5)]]
   \<and> getitem (toy_notebook [Fin 3, Fin 4]) DummyDataset_init 7 \<lparr>draws = real, pos = 5\<rparr>
       = Inr ((Vec [16], Vec [Fin 5, Fin 6]), \<lparr>draws = real, pos = 7\<rparr>)
   \<and> getitem (toy_notebook [Fin 3, Fin 4]) DummyDataset_init 8 \<lparr>draws = real, pos = 7\<rparr>
       = Inr ((Vec [16], Vec [Fin 7, Fin 8]), \<lparr>draws = real, pos = 9\<rparr>)"
  using getitem_fixed_text_dummy_target [of "toy_notebook [Fin 3, Fin 4]" "[[Fin (3 / 5), Fin (4 / 5)]]"
      DummyDataset_init 7 "\<lparr>draws = real, pos = 5\<rparr>"]
    getitem_fixed_text_dummy_target [of "toy_notebook [Fin 3, Fin 4]" "[[Fin (3 / 5), Fin (4 / 5)]]"
      DummyDataset_init 8 "\<lparr>draws = real, pos = 7\<rparr>"]
  by (simp add: toy_notebook_def toy_model_sel toy_tokenizer_cat normalize_row_3_4
      randn_def tensor_size_def squeeze0_def)

section \<open>The zero-step run\<close>

lemma fit_zero:
  "fit lib optimizer mse_loss (Trainer_init 0) self train_loader val_loader =
     (case run_validation lib mse_loss self (take 2 val_loader) 0 of
        Inl e \<Rightarrow> Inl e
      | Inr u \<Rightarrow> Inr (Trainer_init 0, self))"
  by (simp add: fit_def Trainer_init_def split: sum.splits)

lemma global_step_init: "global_step (Trainer_init n) = 0"
  by (simp add: Trainer_init_def)

lemma cell_7_eq:
  "cell_7 lib optimizer mse_loss train_loader val_loader nb files =
     (case run_validation lib mse_loss (model nb) (take 2 val_loader) 0 of
        Inl e \<Rightarrow> Inl e
      | Inr u \<Rightarrow>
          Inr (nb, files(''cringe_clip.ckpt'' \<mapsto>
                 Ckpt \<lparr>ckpt_global_step = 0, ckpt_state_dict = state_dict_of (model nb)\<rparr>)))"
  by (simp add: cell_7_def fit_zero save_checkpoint_def global_step_init split: sum.splits)

lemma cell_7_returns:
  "cell_7 lib optimizer mse_loss train_loader val_loader nb files = Inr (nb', files') \<longleftrightarrow>
     run_validation lib mse_loss (model nb) (take 2 val_loader) 0 = Inr ()
     \<and> nb' = nb
     \<and> files' = files(''cringe_clip.ckpt'' \<mapsto>
                 Ckpt \<lparr>ckpt_global_step = 0, ckpt_state_dict = state_dict_of (model nb)\<rparr>)"
  by (auto simp add: cell_7_eq split: sum.splits)

lemma fit_one_step_changes:
  "fit lib toy_optimizer toy_mse (Trainer_init 1) (toy_model [Fin 3, Fin 4]) [(Some [[1]], [])] [] =
     Inr (\<lparr>max_steps = 1, num_sanity_val_steps = 2, global_step = 1\<rparr>, toy_model [Fin 7, Fin 7])"
  by (simp add: fit_def Trainer_init_def training_step_def forward_text toy_mse_def
      toy_optimizer_def toy_model_def toy_clip_def)

lemma toy_cell_7:
  assumes "model nb = toy_model w"
  shows "cell_7 lib toy_optimizer toy_mse [(Some [[1]], [])] [(Some [[2]], [])] nb Map.empty
     = Inr (nb, [''cringe_clip.ckpt'' \<mapsto> Ckpt \<lparr>ckpt_global_step = 0,
               ckpt_state_dict = [(''clip_module.w'', w)]\<rparr>])"
  by (simp add: cell_7_eq validation_step_def forward_text toy_mse_def state_dict_of_def
      assms toy_model_sel toy_clip_sel)

lemma toy_notebook_model: "model (toy_notebook w) = toy_model w"
  by (simp add: toy_notebook_def)

text \<open>
  C6: the runner of cell 7 is made with \<open>max_steps = 0\<close>. When the cell completes, the
  wrapper, and so every one of its parameters, is the one it started with, and the
  checkpoint written holds exactly the state dict of that wrapper, at step 0.
\<close>

theorem zero_step_run_keeps_parameters:
  assumes "cell_7 lib optimizer mse_loss train_loader val_loader nb files = Inr (nb', files')"
  shows "parameters (clip_module (model nb')) = parameters (clip_module (model nb))
         \<and> model nb' = model nb
         \<and> files' ''cringe_clip.ckpt''
             = Some (Ckpt \<lparr>ckpt_global_step = 0, ckpt_state_dict = state_dict_of (model nb)\<rparr>)"
  using assms by (simp add: cell_7_returns)

theorem zero_step_run_keeps_parameters_witness:
  "cell_7 exact_lib toy_optimizer toy_mse [(Some [[1]], [])] [(Some [[2]], [])]
       (toy_notebook [Fin 3, Fin 4]) Map.empty
     = Inr (toy_notebook [Fin 3, Fin 4],
            [''cringe_clip.ckpt'' \<mapsto> Ckpt \<lparr>ckpt_global_step = 0,
               ckpt_state_dict = [(''clip_module.w'', [Fin 3, Fin 4])]\<rparr>])
   \<and> parameters (clip_module (model (toy_notebook [Fin 3, Fin 4]))) = [(''w'', [Fin 3, Fin 4])]"
  using zero_step_run_keeps_parameters [OF toy_cell_7 [OF toy_notebook_model, of exact_lib "[Fin 3, Fin 4]"]]
    toy_cell_7 [OF toy_notebook_model, of exact_lib "[Fin 3, Fin 4]"]
  by (simp add: toy_notebook_model toy_model_sel toy_clip_sel)

section \<open>Saving and reloading\<close>

lemma map_of_nth:
  assumes "distinct (map fst sd)" and "i < length sd"
  shows "map_of sd (fst (sd ! i)) = Some (snd (sd ! i))"
  using assms by simp

lemma strict_load_same_keys:
  assumes d: "distinct (map fst sd)"
    and k: "map fst own = map fst sd"
    and z: "map (\<lambda>kv. length (snd kv)) own = map (\<lambda>kv. length (snd kv)) sd"
  shows "load_state_dict_strict own sd = Inr sd"
proof -
  have len: "length own = length sd"
    using k by (rule map_eq_imp_length_eq)
  have look: "map_of sd (fst (own ! i)) = Some (snd (sd ! i))" if "i < length own" for i
  proof -
    from that len have i: "i < length sd" by simp
    have "fst (own ! i) = fst (sd ! i)"
      using k that i by (metis nth_map)
    with map_of_nth [OF d i] show ?thesis by simp
  qed
  have size_eq: "length (snd (own ! i)) = length (snd (sd ! i))" if "i < length own" for i
  proof -
    from that len have i: "i < length sd" by simp
    have "map (\<lambda>kv. length (snd kv)) own ! i = map (\<lambda>kv. length (snd kv)) sd ! i"
      using z by simp
    with that i show ?thesis by simp
  qed
  have missing: "[k \<leftarrow> map fst own. k \<notin> set (map fst sd)] = []"
    using k by (simp add: filter_empty_conv)
  have unexpected: "[k \<leftarrow> map fst sd. k \<notin> set (map fst own)] = []"
    using k by (simp add: filter_empty_conv)
  have mismatch: "[kv \<leftarrow> own. case map_of sd (fst kv) of None \<Rightarrow> False
                    | Some w \<Rightarrow> length w \<noteq> length (snd kv)] = []"
  proof -
    have "\<not> (case map_of sd (fst kv) of None \<Rightarrow> False | Some w \<Rightarrow> length w \<noteq> length (snd kv))"
      if "kv \<in> set own" for kv
    proof -
      from that obtain i where i: "i < length own" "kv = own ! i"
        by (auto simp add: in_set_conv_nth)
      with look [of i] size_eq [of i] show ?thesis by simp
    qed
    then show ?thesis by (simp add: filter_empty_conv)
  qed
  have new: "map (\<lambda>kv. case map_of sd (fst kv) of None \<Rightarrow> kv | Some w \<Rightarrow> (fst kv, w)) own = sd"
  proof (rule nth_equalityI)
    show "length (map (\<lambda>kv. case map_of sd (fst kv) of None \<Rightarrow> kv | Some w \<Rightarrow> (fst kv, w)) own)
            = length sd"
      using len by simp
  next
    fix i
    assume "i < length (map (\<lambda>kv. case map_of sd (fst kv) of None \<Rightarrow> kv | Some w \<Rightarrow> (fst kv, w)) own)"
    then have i: "i < length own" by simp
    with len have i': "i < length sd" by simp
    have "fst (own ! i) = fst (sd ! i)"
      using k i i' by (metis nth_map)
    with look [OF i] i
    show "map (\<lambda>kv. case map_of sd (fst kv) of None \<Rightarrow> kv | Some w \<Rightarrow> (fst kv, w)) own ! i = sd ! i"
      by (simp add: prod_eq_iff)
  qed
  show ?thesis
    unfolding load_state_dict_strict_def Let_def missing unexpected mismatch new by simp
qed

lemma keys_state_dict_of:
  "map fst (state_dict_of self) = map ((@) ''clip_module.'') (map fst (parameters (clip_module self)))"
  by (simp add: state_dict_of_def comp_def)

lemma sizes_state_dict_of:
  "map (\<lambda>kv. length (snd kv)) (state_dict_of self)
     = map (\<lambda>kv. length (snd kv)) (parameters (clip_module self))"
  by (simp add: state_dict_of_def comp_def)

lemma distinct_state_dict_of:
  "distinct (map fst (parameters (clip_module self))) \<Longrightarrow> distinct (map fst (state_dict_of self))"
  by (simp add: keys_state_dict_of distinct_map inj_on_def)

lemma strip_state_dict_of:
  "map (\<lambda>kv. (drop (length ''clip_module.'') (fst kv), snd kv)) (state_dict_of self)
     = parameters (clip_module self)"
  by (simp add: state_dict_of_def comp_def)

lemma load_state_dict_same_structure:
  assumes "distinct (map fst (parameters (clip_module self)))"
    and "map fst (parameters (clip_module fresh)) = map fst (parameters (clip_module self))"
    and "map (\<lambda>kv. length (snd kv)) (parameters (clip_module fresh))
           = map (\<lambda>kv. length (snd kv)) (parameters (clip_module self))"
  shows "load_state_dict fresh (state_dict_of self)
           = Inr (fresh\<lparr>clip_module := (clip_module fresh)
                    \<lparr>parameters := parameters (clip_module self)\<rparr>\<rparr>)"
proof -
  have "load_state_dict_strict (state_dict_of fresh) (state_dict_of self) = Inr (state_dict_of self)"
    using assms
    by (intro strict_load_same_keys distinct_state_dict_of)
       (simp_all add: keys_state_dict_of sizes_state_dict_of)
  then show ?thesis
    unfolding load_state_dict_def by (simp only: strip_state_dict_of sum.case)
qed

lemma cell_5_result:
  "fst (cell_5 lib nb) =
     (let nb' = nb\<lparr>example_output := Embedding (normalize lib (encode_text (clip_module (model nb))
                      (tokenizer (model nb) [''a photo of a cat''])))\<rparr>
      in case global_x nb of None \<Rightarrow> nb' | Some v \<Rightarrow> nb'\<lparr>stdout := stdout nb @ [v]\<rparr>)"
  by (simp add: cell_5_def forward_text Let_def split: option.splits)

lemma toy_cell_5_unbound:
  "cell_5 exact_lib (toy_notebook [Fin 3, Fin 4])
     = (toy_notebook [Fin 3, Fin 4], Some (NameError ''x''))"
  by (simp add: cell_5_def toy_notebook_def toy_model_sel toy_tokenizer_cat toy_forward)

lemma cell_5_keeps:
  assumes "cell_5 lib nb = (nb', raised)"
  shows "model nb' = model nb"
    and "example_output nb' = Embedding (normalize lib (encode_text (clip_module (model nb))
            (tokenizer (model nb) [''a photo of a cat''])))"
  using cell_5_result [of lib nb] assms by (simp_all add: Let_def split: option.splits)

lemma toy_load:
  "load_state_dict (CringeCLIPModel_init2 (toy_clip v) toy_tokenizer) [(''clip_module.w'', w)]
     = (if length w = length v then Inr (toy_model w)
        else Inl (RuntimeError ''Error(s) in loading state_dict''))"
  by (simp add: load_state_dict_def load_state_dict_strict_def state_dict_of_def
      CringeCLIPModel_init2_def toy_clip_def toy_model_def)

text \<open>A fresh wrapper of another structure does not take the checkpoint: the strict load
  raises, and so does cell 11.\<close>

lemma cell_11_other_structure:
  "cell_11 lib (toy_clip [Fin 1, Fin 2, Fin 3]) toy_tokenizer nb
       [''cringe_clip.ckpt'' \<mapsto> Ckpt \<lparr>ckpt_global_step = 0,
            ckpt_state_dict = [(''clip_module.w'', [Fin 3, Fin 4])]\<rparr>]
     = Inl (RuntimeError ''Error(s) in loading state_dict'')"
  by (simp add: cell_11_def torch_load_def get_state_dict_def toy_load)

text \<open>
  C1: cell 5 embeds the fixed sentence with the original wrapper, cell 7 runs zero steps
  and saves the checkpoint. Then the file holds the state dict of the original wrapper; a
  fresh wrapper of the same structure (the same encoders and tokenizer, the same
  parameter names and sizes, any parameter values) takes that state dict and holds the
  original parameters; and cell 11, run on any notebook state, completes with that
  loaded wrapper as the model and with the embedding it recomputes, which is the
  embedding of cell 5.
\<close>

theorem checkpoint_round_trip:
  assumes embedded: "cell_5 lib nb0 = (nb5, raised)"
    and saved: "cell_7 lib optimizer mse_loss train_loader val_loader nb5 files = Inr (nb7, files7)"
    and dist: "distinct (map fst (parameters (clip_module (model nb0))))"
    and arch: "visual created = visual (clip_module (model nb0))"
              "textual created = textual (clip_module (model nb0))"
              "tok = tokenizer (model nb0)"
    and keys: "map fst (parameters created) = map fst (parameters (clip_module (model nb0)))"
    and sizes: "map (\<lambda>kv. length (snd kv)) (parameters created)
                  = map (\<lambda>kv. length (snd kv)) (parameters (clip_module (model nb0)))"
  shows "example_output nb5
           = Embedding (normalize lib (encode_text (clip_module (model nb0))
               (tokenizer (model nb0) [''a photo of a cat''])))
         \<and> files7 ''cringe_clip.ckpt''
             = Some (Ckpt \<lparr>ckpt_global_step = 0, ckpt_state_dict = state_dict_of (model nb0)\<rparr>)
         \<and> load_state_dict (CringeCLIPModel_init2 created tok) (state_dict_of (model nb0))
             = Inr \<lparr>clip_module = created\<lparr>parameters := parameters (clip_module (model nb0))\<rparr>,
                    tokenizer = tok\<rparr>
         \<and> cell_11 lib created tok nb files7
             = Inr (nb\<lparr>model := \<lparr>clip_module = created
                                      \<lparr>parameters := parameters (clip_module (model nb0))\<rparr>,
                                   tokenizer = tok\<rparr>,
                       example_output := example_output nb5,
                       stdout := stdout nb @ [example_output nb5]\<rparr>)"
proof -
  from cell_5_keeps [OF embedded]
  have m5: "model nb5 = model nb0"
    and out: "example_output nb5
           = Embedding (normalize lib (encode_text (clip_module (model nb0))
               (tokenizer (model nb0) [''a photo of a cat''])))"
    by simp_all
  from saved have files7: "files7 = files(''cringe_clip.ckpt'' \<mapsto>
                 Ckpt \<lparr>ckpt_global_step = 0, ckpt_state_dict = state_dict_of (model nb0)\<rparr>)"
    by (simp add: cell_7_returns m5)
  let ?fresh = "CringeCLIPModel_init2 created tok"
  let ?loaded = "\<lparr>clip_module = created\<lparr>parameters := parameters (clip_module (model nb0))\<rparr>,
                  tokenizer = tok\<rparr>"
  have fresh: "clip_module ?fresh = created" "tokenizer ?fresh = tok"
    by (simp_all add: CringeCLIPModel_init2_def)
  have "load_state_dict ?fresh (state_dict_of (model nb0))
      = Inr (?fresh\<lparr>clip_module := (clip_module ?fresh)
               \<lparr>parameters := parameters (clip_module (model nb0))\<rparr>\<rparr>)"
    using dist keys sizes by (intro load_state_dict_same_structure) (simp_all add: fresh)
  then have loaded: "load_state_dict ?fresh (state_dict_of (model nb0)) = Inr ?loaded"
    by (simp add: CringeCLIPModel_init2_def)
  have enc: "encode_text (created\<lparr>parameters := parameters (clip_module (model nb0))\<rparr>) t
               = encode_text (clip_module (model nb0)) t" for t
    using arch by (simp add: encode_text_def)
  have out': "example_output nb5
           = Embedding (normalize lib (encode_text (clip_module (model nb0)) (tok [''a photo of a cat''])))"
    using out by (simp only: arch(3))
  have "cell_11 lib created tok nb files7
          = Inr (nb\<lparr>model := ?loaded, example_output := example_output nb5,
                    stdout := stdout nb @ [example_output nb5]\<rparr>)"
    by (simp add: cell_11_def Let_def torch_load_def files7 get_state_dict_def loaded
        forward_text enc out')
  with out files7 loaded show ?thesis
    by simp
qed

theorem checkpoint_round_trip_witness:
  "cell_5 exact_lib (toy_notebook [Fin 3, Fin 4]\<lparr>global_x := Some (Embedding [[Fin 9]])\<rparr>)
     = (toy_notebook [Fin 3, Fin 4]\<lparr>global_x := Some (Embedding [[Fin 9]]),
                                      stdout := [Embedding [[Fin 9]]]\<rparr>, None)
   \<and> example_output (toy_notebook [Fin 3, Fin 4]) = Embedding [[Fin (3 / 5), Fin (4 / 5)]]
   \<and> cell_11 exact_lib (toy_clip [Fin 1, Fin 2]) toy_tokenizer
        \<lparr>model = toy_model [Fin 9, Fin 9], example_output = PyNone, global_x = None, stdout = []\<rparr>
        [''cringe_clip.ckpt'' \<mapsto> Ckpt \<lparr>ckpt_global_step = 0,
             ckpt_state_dict = [(''clip_module.w'', [Fin 3, Fin 4])]\<rparr>]
       = Inr \<lparr>model = toy_model [Fin 3, Fin 4],
              example_output = Embedding [[Fin (3 / 5), Fin (4 / 5)]],
              global_x = None, stdout = [Embedding [[Fin (3 / 5), Fin (4 / 5)]]]\<rparr>"
proof -
  let ?nb0 = "toy_notebook [Fin 3, Fin 4]\<lparr>global_x := Some (Embedding [[Fin 9]])\<rparr>"
  let ?nb5 = "toy_notebook [Fin 3, Fin 4]\<lparr>global_x := Some (Embedding [[Fin 9]]),
                                      stdout := [Embedding [[Fin 9]]]\<rparr>"
  have ex: "example_output (toy_notebook [Fin 3, Fin 4]) = Embedding [[Fin (3 / 5), Fin (4 / 5)]]"
    by (simp add: toy_notebook_def normalize_row_3_4)
  have c5: "cell_5 exact_lib ?nb0 = (?nb5, None)"
    by (simp add: cell_5_def toy_notebook_def toy_model_sel toy_tokenizer_cat toy_forward)
  have m5: "model ?nb5 = toy_model [Fin 3, Fin 4]"
    by (simp add: toy_notebook_def)
  have c7: "cell_7 exact_lib toy_optimizer toy_mse [(Some [[1]], [])] [(Some [[2]], [])] ?nb5 Map.empty
     = Inr (?nb5, [''cringe_clip.ckpt'' \<mapsto> Ckpt \<lparr>ckpt_global_step = 0,
               ckpt_state_dict = [(''clip_module.w'', [Fin 3, Fin 4])]\<rparr>])"
    using m5 by (rule toy_cell_7)
  from checkpoint_round_trip [OF c5 c7,
      where created = "toy_clip [Fin 1, Fin 2]" and tok = toy_tokenizer
        and nb = "\<lparr>model = toy_model [Fin 9, Fin 9], example_output = PyNone, global_x = None,
                    stdout = []\<rparr>", THEN conjunct2, THEN conjunct2, THEN conjunct2]
  have "cell_11 exact_lib (toy_clip [Fin 1, Fin 2]) toy_tokenizer
        \<lparr>model = toy_model [Fin 9, Fin 9], example_output = PyNone, global_x = None, stdout = []\<rparr>
        [''cringe_clip.ckpt'' \<mapsto> Ckpt \<lparr>ckpt_global_step = 0,
             ckpt_state_dict = [(''clip_module.w'', [Fin 3, Fin 4])]\<rparr>]
       = Inr \<lparr>model = toy_model [Fin 3, Fin 4],
              example_output = Embedding [[Fin (3 / 5), Fin (4 / 5)]],
              global_x = None, stdout = [Embedding [[Fin (3 / 5), Fin (4 / 5)]]]\<rparr>"
    by (simp add: toy_notebook_def toy_model_sel toy_clip_sel toy_tokenizer_cat normalize_def
        normalize_row_3_4)
  with c5 ex show ?thesis by simp
qed

section \<open>The reload cell\<close>

lemma cell_11_loaded:
  assumes "files ''cringe_clip.ckpt'' = Some (Ckpt c)"
    and "load_state_dict (CringeCLIPModel_init2 created tok) (ckpt_state_dict c) = Inr loaded"
  shows "cell_11 lib created tok nb files
           = Inr (nb\<lparr>model := loaded,
                    example_output := Embedding (normalize lib (encode_text (clip_module loaded)
                        (tokenizer loaded [''a photo of a cat'']))),
                    stdout := stdout nb @ [Embedding (normalize lib (encode_text (clip_module loaded)
                        (tokenizer loaded [''a photo of a cat''])))]\<rparr>)"
  using assms by (simp add: cell_11_def Let_def torch_load_def get_state_dict_def forward_text)

lemma cell_11_ignores_example_output:
  "isl (cell_11 lib created tok (nb\<lparr>example_output := e\<rparr>) files)
     = isl (cell_11 lib created tok nb files)"
  by (simp add: cell_11_def Let_def split: sum.splits)

text \<open>
  C7, as stated, fails: with a checkpoint file that holds other parameter values, cell 11
  computes an embedding that differs from the one of before, and completes normally.
\<close>

theorem reload_mismatch_counterexample:
  "example_output (toy_notebook [Fin 3, Fin 4]) = Embedding [[Fin (3 / 5), Fin (4 / 5)]]
   \<and> cell_11 exact_lib (toy_clip [Fin 1, Fin 2]) toy_tokenizer (toy_notebook [Fin 3, Fin 4])
        [''cringe_clip.ckpt'' \<mapsto> Ckpt \<lparr>ckpt_global_step = 0,
             ckpt_state_dict = [(''clip_module.w'', [Fin 0, Fin 1])]\<rparr>]
       = Inr \<lparr>model = toy_model [Fin 0, Fin 1], example_output = Embedding [[Fin 0, Fin 1]],
              global_x = None, stdout = [Embedding [[Fin 0, Fin 1]]]\<rparr>"
  by (simp add: cell_11_def Let_def torch_load_def get_state_dict_def toy_load toy_model_sel
      toy_tokenizer_cat toy_forward toy_notebook_def normalize_row_3_4 normalize_row_0_1)

text \<open>
  C7, amended: cell 11 makes no comparison. Whenever the checkpoint file is there and its
  state dict loads into the fresh wrapper, the cell completes: it stores and prints the
  recomputed embedding, whatever embedding the notebook held before.
\<close>

theorem cell_11_prints_without_comparing:
  assumes "files ''cringe_clip.ckpt'' = Some (Ckpt c)"
    and "load_state_dict (CringeCLIPModel_init2 created tok) (ckpt_state_dict c) = Inr loaded"
  shows "cell_11 lib created tok (nb\<lparr>example_output := e\<rparr>) files
           = Inr (nb\<lparr>model := loaded,
                    example_output := Embedding (normalize lib (encode_text (clip_module loaded)
                        (tokenizer loaded [''a photo of a cat'']))),
                    stdout := stdout nb @ [Embedding (normalize lib (encode_text (clip_module loaded)
                        (tokenizer loaded [''a photo of a cat''])))]\<rparr>)"
  using cell_11_loaded [where files = files and c = c and nb = "nb\<lparr>example_output := e\<rparr>", OF assms]
  by simp

theorem cell_11_prints_without_comparing_witness:
  "cell_11 exact_lib (toy_clip [Fin 1, Fin 2]) toy_tokenizer
        (toy_notebook [Fin 0, Fin 1]\<lparr>example_output := Embedding [[Fin 1, Fin 0]]\<rparr>)
        [''cringe_clip.ckpt'' \<mapsto> Ckpt \<lparr>ckpt_global_step = 0,
             ckpt_state_dict = [(''clip_module.w'', [Fin 3, Fin 4])]\<rparr>]
       = Inr \<lparr>model = toy_model [Fin 3, Fin 4], example_output = Embedding [[Fin (3 / 5), Fin (4 / 5)]],
              global_x = None, stdout = [Embedding [[Fin (3 / 5), Fin (4 / 5)]]]\<rparr>"
proof -
  have f: "[''cringe_clip.ckpt'' \<mapsto> Ckpt \<lparr>ckpt_global_step = 0,
             ckpt_state_dict = [(''clip_module.w'', [Fin 3, Fin 4])]\<rparr>] ''cringe_clip.ckpt''
        = Some (Ckpt \<lparr>ckpt_global_step = 0, ckpt_state_dict = [(''clip_module.w'', [Fin 3, Fin 4])]\<rparr>)"
    by simp
  have l: "load_state_dict (CringeCLIPModel_init2 (toy_clip [Fin 1, Fin 2]) toy_tokenizer)
        (ckpt_state_dict \<lparr>ckpt_global_step = 0, ckpt_state_dict = [(''clip_module.w'', [Fin 3, Fin 4])]\<rparr>)
        = Inr (toy_model [Fin 3, Fin 4])"
    by (simp add: toy_load)
  from cell_11_prints_without_comparing [where nb = "toy_notebook [Fin 0, Fin 1]"
      and e = "Embedding [[Fin 1, Fin 0]]" and lib = exact_lib
      and files = "[''cringe_clip.ckpt'' \<mapsto> Ckpt \<lparr>ckpt_global_step = 0,
             ckpt_state_dict = [(''clip_module.w'', [Fin 3, Fin 4])]\<rparr>]", OF f l]
  show ?thesis
    by (simp add: toy_notebook_def toy_model_sel toy_clip_sel toy_tokenizer_cat normalize_def
        normalize_row_3_4)
qed

end
